theory Spec2Isabelle
  imports Complex_Main
begin

section \<open>Numbers, vectors and configuration\<close>

text \<open>
  The program is \<^verbatim>\<open>src/main.py\<close> of the racing game. Python's \<^verbatim>\<open>int\<close> is \<^typ>\<open>int\<close>;
  Python's \<^verbatim>\<open>float\<close> is idealised as \<^typ>\<open>real\<close> (no rounding, no NaN), so every
  equation below about a velocity or an angle is an equation of real arithmetic.
  A pymunk \<^verbatim>\<open>Vec2d\<close> is a pair of reals.
\<close>

type_synonym vec = "real \<times> real"
type_synonym point = "int \<times> int"
type_synonym polygon = "point list"
type_synonym rgba = "int \<times> int \<times> int \<times> int"

definition SCREEN_WIDTH :: int where "SCREEN_WIDTH = 1280"
definition SCREEN_HEIGHT :: int where "SCREEN_HEIGHT = 720"

text \<open>One entry of the list \<^verbatim>\<open>TRACKS\<close>: a dictionary with the four keys below.\<close>

record track_def =
  cfg_track :: string
  cfg_start :: point
  cfg_outer_bound :: polygon
  cfg_inner_bound :: polygon

definition TRACKS :: "track_def list" where
  "TRACKS =
    [\<lparr> cfg_track = ''assets/racing_track.png'',
       cfg_start = (110, 360),
       cfg_outer_bound =
         [(50, 250), (290, 50), (975, 50), (1100, 175), (1100, 225), (885, 285),
          (885, 360), (1230, 400), (1230, 575), (1115, 670), (280, 670), (50, 500)],
       cfg_inner_bound =
         [(200, 285), (355, 160), (880, 160), (640, 270), (640, 415), (800, 480),
          (1070, 490), (1040, 575), (350, 575), (200, 465)] \<rparr>]"

definition CAR_MASS :: real where "CAR_MASS = 1"
definition DAMPING :: real where "DAMPING = 0.05"
definition ACCELERATE_FORCE :: real where "ACCELERATE_FORCE = 1250"
definition BREAK_FORCE :: real where "BREAK_FORCE = 1250"
definition MAX_VELOCITY :: real where "MAX_VELOCITY = 100000"
definition CAR_TURN_SPEED :: real where "CAR_TURN_SPEED = 0.075"
definition CAR_DRIFT :: real where "CAR_DRIFT = 0.35"

section \<open>The collaborators: sprites, the rasteriser, the physics body\<close>

text \<open>
  An arcade sprite, as far as the program reads or writes it: its centre and its angle
  (degrees). A fresh sprite sits at the origin with angle 0.
\<close>

record sprite =
  center_x :: real
  center_y :: real
  sprite_angle :: real

definition Sprite :: sprite where
  "Sprite = \<lparr> center_x = 0, center_y = 0, sprite_angle = 0 \<rparr>"

text \<open>\<^verbatim>\<open>class Car(arcade.Sprite)\<close>: the constructor only loads the car's picture.\<close>

definition Car :: sprite where
  "Car = Sprite"

text \<open>
  The Pillow image the track constructor draws on is kept as what the program asks of the
  rasteriser: the canvas (size, background colour) and the drawing calls in order. What
  pixels a call produces is the rasteriser's business and is not modelled.
\<close>

datatype draw_cmd = Draw_polygon polygon rgba rgba int

record image =
  img_size :: "int \<times> int"
  img_color :: rgba
  img_draws :: "draw_cmd list"

text \<open>
  The pymunk body of the car. \<open>applied\<close> lists the forces handed to
  \<^verbatim>\<open>apply_force_at_local_point(force, (0, 0))\<close> since the body was created, oldest
  first, each in the body's local coordinates (that is what arcade's
  \<^verbatim>\<open>PymunkPhysicsEngine.apply_force\<close> calls); how the engine integrates them is its own
  business.
\<close>

record body =
  mass :: real
  max_velocity :: real
  position :: vec
  velocity :: vec
  angle :: real
  applied :: "vec list"

record pymunk_engine =
  damping :: real
  gravity :: vec
  car_body :: body

text \<open>\<^verbatim>\<open>Vec2d.rotated(angle_radians)\<close> of pymunk.\<close>

definition rotated :: "vec \<Rightarrow> real \<Rightarrow> vec" where
  "rotated v a = (fst v * cos a - snd v * sin a, fst v * sin a + snd v * cos a)"


text \<open>\<^verbatim>\<open>PymunkPhysicsEngine.apply_force\<close> and \<^verbatim>\<open>set_velocity\<close> on the one body.\<close>

definition apply_force :: "vec \<Rightarrow> pymunk_engine \<Rightarrow> pymunk_engine" where
  "apply_force f e = e\<lparr> car_body := (car_body e)\<lparr> applied := applied (car_body e) @ [f] \<rparr> \<rparr>"

definition set_velocity :: "vec \<Rightarrow> pymunk_engine \<Rightarrow> pymunk_engine" where
  "set_velocity v e = e\<lparr> car_body := (car_body e)\<lparr> velocity := v \<rparr> \<rparr>"

definition add_angle :: "real \<Rightarrow> pymunk_engine \<Rightarrow> pymunk_engine" where
  "add_angle d e = e\<lparr> car_body := (car_body e)\<lparr> angle := angle (car_body e) + d \<rparr> \<rparr>"

text \<open>
  \<^verbatim>\<open>PymunkPhysicsEngine(damping, gravity)\<close> followed by \<^verbatim>\<open>add_sprite(sprite, mass,
  max_velocity, ...)\<close>: the new body takes the sprite's centre as position and the sprite's
  angle (converted to radians) as angle; a new body is at rest and no force acts on it.
\<close>

definition PymunkPhysicsEngine :: "real \<Rightarrow> vec \<Rightarrow> sprite \<Rightarrow> real \<Rightarrow> real \<Rightarrow> pymunk_engine" where
  "PymunkPhysicsEngine d g s m mv =
     \<lparr> damping = d, gravity = g,
       car_body = \<lparr> mass = m, max_velocity = mv,
                    position = (center_x s, center_y s),
                    velocity = (0, 0),
                    angle = sprite_angle s * pi / 180,
                    applied = [] \<rparr> \<rparr>"

section \<open>Track\<close>

text \<open>
  \<^verbatim>\<open>class Track(arcade.Sprite)\<close>. The temporary PNG file the constructor writes for the
  sprite's texture holds the same picture as the mask and is not modelled apart from it.
\<close>

record track =
  outer_box :: polygon
  inner_box :: polygon
  start :: point
  alpha_track_mask :: image
  track_sprite :: sprite

definition flip_y :: "polygon \<Rightarrow> polygon" where
  "flip_y points = map (\<lambda>(x, y). (x, SCREEN_HEIGHT - y)) points"

definition Track :: "track_def \<Rightarrow> track" where
  "Track cfg =
     \<lparr> outer_box = cfg_outer_bound cfg,
       inner_box = cfg_inner_bound cfg,
       start = cfg_start cfg,
       alpha_track_mask =
         \<lparr> img_size = (SCREEN_WIDTH, SCREEN_HEIGHT), img_color = (0, 0, 0, 0),
           img_draws =
             [Draw_polygon (flip_y (cfg_outer_bound cfg)) (128, 128, 128, 255) (0, 0, 0, 255) 3,
              Draw_polygon (flip_y (cfg_inner_bound cfg)) (0, 0, 0, 0) (0, 0, 0, 255) 3] \<rparr>,
       track_sprite = Sprite \<rparr>"

text \<open>
  \<^verbatim>\<open>Track.is_ontrack\<close>. The point-in-polygon primitive \<^verbatim>\<open>arcade.is_point_in_polygon\<close>
  belongs to the engine, so the method takes it as the parameter \<open>pip\<close>.
\<close>

type_synonym pip = "real \<Rightarrow> real \<Rightarrow> polygon \<Rightarrow> bool"

definition is_ontrack :: "pip \<Rightarrow> track \<Rightarrow> real \<Rightarrow> real \<Rightarrow> bool" where
  "is_ontrack pip t x y = (pip x y (outer_box t) \<and> \<not> pip x y (inner_box t))"

text \<open>
  Modelled from the spec: the engine's point-in-polygon primitive
  (\<^verbatim>\<open>arcade.is_point_in_polygon\<close>) is not part of the source. The spec calls it a
  standard point-in-polygon test (ray casting or winding number); this is the ray-casting
  test: a horizontal ray from the point to the right, an edge counted when its two ends
  lie on different sides of the ray's line (an end on the line counts as below) and the
  ray meets it, the point inside when the count is odd. A polygon is closed implicitly.
\<close>

definition edges :: "polygon \<Rightarrow> (point \<times> point) list" where
  "edges ps = zip ps (rotate1 ps)"

definition ray_meets :: "real \<Rightarrow> real \<Rightarrow> point \<times> point \<Rightarrow> bool" where
  "ray_meets x y e =
     (case e of ((x1, y1), (x2, y2)) \<Rightarrow>
        (y < real_of_int y1) \<noteq> (y < real_of_int y2) \<and>
        x < real_of_int x1 +
            (y - real_of_int y1) * real_of_int (x2 - x1) / real_of_int (y2 - y1))"

definition ray_casting :: pip where
  "ray_casting x y ps = odd (length (filter (ray_meets x y) (edges ps)))"

section \<open>Racer\<close>

text \<open>
  \<^verbatim>\<open>class Racer(arcade.Window)\<close>. The constructor leaves scene, track, car and engine
  unset; \<^verbatim>\<open>main\<close> calls \<^verbatim>\<open>setup\<close> before the window's loop starts, so every state an
  event handler or a tick sees has them. The record holds such a state. The scene only
  lists the two sprites for drawing and is left out.
\<close>

record racer =
  track :: track
  car :: sprite
  physics_engine :: pymunk_engine
  accelerate :: bool
  slowdown :: bool
  turn_left :: bool
  turn_right :: bool
  out_of_track :: bool

text \<open>The three objects \<^verbatim>\<open>Racer.setup\<close> builds (lines 153 to 171).\<close>

definition setup_track :: track where
  "setup_track =
     (Track (TRACKS ! 0))
       \<lparr> track_sprite := Sprite \<lparr> center_x := real_of_int (SCREEN_WIDTH div 2),
                                  center_y := real_of_int (SCREEN_HEIGHT div 2) \<rparr> \<rparr>"

definition setup_car :: sprite where
  "setup_car =
     Car \<lparr> center_x := real_of_int (fst (cfg_start (TRACKS ! 0))),
           center_y := real_of_int (snd (cfg_start (TRACKS ! 0))) \<rparr>"

definition setup_engine :: pymunk_engine where
  "setup_engine = PymunkPhysicsEngine DAMPING (0, 0) setup_car CAR_MASS MAX_VELOCITY"

text \<open>\<^verbatim>\<open>Racer.setup\<close>.\<close>

definition setup_racer :: "racer \<Rightarrow> racer" where
  "setup_racer s = s\<lparr> track := setup_track, car := setup_car, physics_engine := setup_engine,
               out_of_track := False \<rparr>"

text \<open>\<^verbatim>\<open>main\<close>: a new \<^verbatim>\<open>Racer()\<close> (all controls and the flag off), then \<^verbatim>\<open>setup()\<close>.\<close>

definition main :: racer where
  "main = \<lparr> track = setup_track, car = setup_car, physics_engine = setup_engine,
            accelerate = False, slowdown = False, turn_left = False, turn_right = False,
            out_of_track = False \<rparr>"

subsection \<open>Keys\<close>

datatype key = Q | ESCAPE | R | UP | W | DOWN | S | LEFT | A | RIGHT | D | Other_key

datatype error = SystemExit int

definition on_key_press :: "key \<Rightarrow> racer \<Rightarrow> error + racer" where
  "on_key_press k s =
     (if k \<in> set [Q, ESCAPE] then Inl (SystemExit 0)
      else
        let s1 = (if k = R then setup_racer s else s);
            s2 = (if k \<in> set [UP, W] then s1\<lparr> accelerate := True \<rparr>
                  else if k \<in> set [DOWN, S] then s1\<lparr> slowdown := True \<rparr>
                  else s1);
            s3 = (if k \<in> set [LEFT, A] then s2\<lparr> turn_left := True \<rparr>
                  else if k \<in> set [RIGHT, D] then s2\<lparr> turn_right := True \<rparr>
                  else s2)
        in Inr s3)"

definition on_key_release :: "key \<Rightarrow> racer \<Rightarrow> racer" where
  "on_key_release k s =
     (let s1 = (if k \<in> set [UP, W] then s\<lparr> accelerate := False \<rparr> else s);
          s2 = (if k \<in> set [DOWN, S] then s1\<lparr> slowdown := False \<rparr> else s1);
          s3 = (if k \<in> set [LEFT, A] then s2\<lparr> turn_left := False \<rparr>
                else if k \<in> set [RIGHT, D] then s2\<lparr> turn_right := False \<rparr>
                else s2)
      in s3)"

subsection \<open>The tick\<close>

text \<open>\<^verbatim>\<open>self.physics_engine.get_physics_object(self.car).body\<close>.\<close>

definition body_of :: "racer \<Rightarrow> body" where
  "body_of s = car_body (physics_engine s)"

text \<open>Lines 212 to 221 of \<^verbatim>\<open>on_update\<close>: accelerate, else brake.\<close>

definition drive :: "racer \<Rightarrow> racer" where
  "drive s =
     (if accelerate s then
        s\<lparr> physics_engine := apply_force (0, ACCELERATE_FORCE) (physics_engine s) \<rparr>
      else if slowdown s then
        (if snd (velocity (body_of s)) < BREAK_FORCE then
           s\<lparr> physics_engine := set_velocity (0, 0) (physics_engine s) \<rparr>
         else
           s\<lparr> physics_engine := apply_force (0, - BREAK_FORCE) (physics_engine s) \<rparr>)
      else s)"

text \<open>
  Lines 222 to 245: turn left, else turn right. The angle is written first; the velocity
  that is rotated is read after that write.
\<close>

definition turn :: "racer \<Rightarrow> racer" where
  "turn s =
     (if turn_left s then
        (let e = add_angle CAR_TURN_SPEED (physics_engine s)
         in s\<lparr> physics_engine :=
                 set_velocity
                   (rotated (velocity (car_body e)) (CAR_TURN_SPEED - CAR_DRIFT * CAR_TURN_SPEED))
                   e \<rparr>)
      else if turn_right s then
        (let e = add_angle (- CAR_TURN_SPEED) (physics_engine s)
         in s\<lparr> physics_engine :=
                 set_velocity
                   (rotated (velocity (car_body e))
                      (- (CAR_TURN_SPEED - CAR_DRIFT * CAR_TURN_SPEED)))
                   e \<rparr>)
      else s)"

text \<open>Lines 203 to 245: everything \<^verbatim>\<open>on_update\<close> does before it steps the engine.\<close>

definition controls :: "pip \<Rightarrow> racer \<Rightarrow> racer" where
  "controls pip s =
     (if \<not> is_ontrack pip (track s) (center_x (car s)) (center_y (car s)) \<or> out_of_track s
      then s\<lparr> out_of_track := True \<rparr>
      else turn (drive s))"

text \<open>
  Line 247, \<^verbatim>\<open>self.physics_engine.step()\<close>: the engine advances its bodies and moves the
  sprites to them. What a step computes is the engine's business: it is the parameter
  \<open>step\<close>, any function of the car's sprite and the engine. \<^verbatim>\<open>on_update\<close> does not
  pass its \<^verbatim>\<open>delta_time\<close> on: the step runs with the engine's own time step.
\<close>

type_synonym step = "sprite \<Rightarrow> pymunk_engine \<Rightarrow> sprite \<times> pymunk_engine"

definition engine_step :: "step \<Rightarrow> racer \<Rightarrow> racer" where
  "engine_step step s =
     (case step (car s) (physics_engine s) of
        (c, e) \<Rightarrow> s\<lparr> car := c, physics_engine := e \<rparr>)"

definition on_update :: "pip \<Rightarrow> step \<Rightarrow> racer \<Rightarrow> real \<Rightarrow> racer" where
  "on_update pip step s delta_time = engine_step step (controls pip s)"

subsection \<open>A race: the window's events in order\<close>

datatype event = Key_press key | Key_release key | Update real

fun run :: "pip \<Rightarrow> step \<Rightarrow> event list \<Rightarrow> racer \<Rightarrow> error + racer" where
  "run pip step [] s = Inr s"
| "run pip step (Key_press k # evs) s =
     (case on_key_press k s of Inl e \<Rightarrow> Inl e | Inr s' \<Rightarrow> run pip step evs s')"
| "run pip step (Key_release k # evs) s = run pip step evs (on_key_release k s)"
| "run pip step (Update dt # evs) s = run pip step evs (on_update pip step s dt)"

section \<open>The braking rule as the specification words it\<close>



section \<open>Concrete races\<close>

text \<open>The car at the start line with a given velocity.\<close>

definition moving :: "vec \<Rightarrow> racer" where
  "moving v = main\<lparr> physics_engine := set_velocity v (physics_engine main) \<rparr>"

text \<open>The same car, turned by the angle \<open>a\<close>.\<close>

definition heading :: "real \<Rightarrow> vec \<Rightarrow> racer" where
  "heading a v = (moving v)\<lparr> physics_engine := add_angle a (physics_engine (moving v)) \<rparr>"

text \<open>A step that leaves sprite and engine as they are: the simplest engine.\<close>

definition idle_step :: step where
  "idle_step c e = (c, e)"

section \<open>Facts about the collaborators and the concrete races\<close>



lemma main_on_track:
  "is_ontrack ray_casting (track main) (center_x (car main)) (center_y (car main))"
  by (simp add: is_ontrack_def main_def setup_track_def setup_car_def Track_def Car_def
      Sprite_def TRACKS_def ray_casting_def ray_meets_def edges_def)

text \<open>
  The specification's scenario for the containment test: the outer polygon a square of
  side 100, the inner one a square of side 20 in its middle.
\<close>

lemma ray_casting_squares:
  "\<not> is_ontrack ray_casting
      (t\<lparr> outer_box := [(0, 0), (100, 0), (100, 100), (0, 100)],
         inner_box := [(40, 40), (60, 40), (60, 60), (40, 60)] \<rparr>) 50 50"
  "is_ontrack ray_casting
      (t\<lparr> outer_box := [(0, 0), (100, 0), (100, 100), (0, 100)],
         inner_box := [(40, 40), (60, 40), (60, 60), (40, 60)] \<rparr>) 10 10"
  "\<not> is_ontrack ray_casting
      (t\<lparr> outer_box := [(0, 0), (100, 0), (100, 100), (0, 100)],
         inner_box := [(40, 40), (60, 40), (60, 60), (40, 60)] \<rparr>) 150 150"
  by (simp_all add: is_ontrack_def ray_casting_def ray_meets_def edges_def)

lemma moving_on_track:
  "is_ontrack ray_casting (track (moving v)) (center_x (car (moving v))) (center_y (car (moving v)))"
  using main_on_track by (simp add: moving_def)

lemma origin_off_track:
  "\<not> is_ontrack ray_casting (track main) 0 0"
  by (simp add: is_ontrack_def main_def setup_track_def Track_def
      TRACKS_def ray_casting_def ray_meets_def edges_def)

lemma body_of_drive_angle: "angle (body_of (drive s)) = angle (body_of s)"
  by (simp add: drive_def body_of_def apply_force_def set_velocity_def)

lemma turn_applied: "applied (body_of (turn s)) = applied (body_of s)"
  by (simp add: turn_def body_of_def add_angle_def set_velocity_def Let_def)


lemma controls_off:
  "\<not> is_ontrack pip (track s) (center_x (car s)) (center_y (car s)) \<or> out_of_track s \<Longrightarrow>
   controls pip s = s\<lparr> out_of_track := True \<rparr>"
  by (simp add: controls_def)

lemma controls_on:
  "is_ontrack pip (track s) (center_x (car s)) (center_y (car s)) \<Longrightarrow> \<not> out_of_track s \<Longrightarrow>
   controls pip s = turn (drive s)"
  by (simp add: controls_def)

lemma engine_step_flag: "out_of_track (engine_step step s) = out_of_track s"
  by (simp add: engine_step_def split: prod.split)

lemma on_update_flag: "out_of_track s \<Longrightarrow> out_of_track (on_update pip step s dt)"
  by (simp add: on_update_def engine_step_flag controls_def)

lemma on_key_release_flag: "out_of_track (on_key_release k s) = out_of_track s"
  by (simp add: on_key_release_def Let_def)

lemma on_key_press_flag:
  "k \<noteq> R \<Longrightarrow> on_key_press k s = Inr s' \<Longrightarrow> out_of_track s' = out_of_track s"
  by (auto simp: on_key_press_def Let_def split: if_splits)

lemma run_flag:
  "out_of_track s \<Longrightarrow> Key_press R \<notin> set evs \<Longrightarrow> run pip step evs s = Inr s' \<Longrightarrow> out_of_track s'"
proof (induction pip step evs s rule: run.induct)
  case (1 pip step s)
  then show ?case by simp
next
  case (2 pip step k evs s)
  from "2.prems" obtain s1 where s1: "on_key_press k s = Inr s1" and r: "run pip step evs s1 = Inr s'"
    by (auto split: sum.splits)
  from "2.prems" have "k \<noteq> R" by auto
  with s1 "2.prems"(1) have "out_of_track s1" by (simp add: on_key_press_flag)
  with "2.IH" s1 r "2.prems"(2) show ?case by simp
next
  case (3 pip step k evs s)
  then show ?case by (simp add: on_key_release_flag)
next
  case (4 pip step dt evs s)
  then show ?case by (simp add: on_update_flag)
qed




lemma heading_on_track:
  "is_ontrack ray_casting (track (heading a v)) (center_x (car (heading a v)))
     (center_y (car (heading a v)))"
  using moving_on_track [of v] by (simp add: heading_def)

lemma heading_body:
  "body_of (heading a v) =
     \<lparr> mass = CAR_MASS, max_velocity = MAX_VELOCITY, position = (110, 360),
       velocity = v, angle = a, applied = [] \<rparr>"
  by (simp add: heading_def moving_def body_of_def set_velocity_def add_angle_def main_def
      setup_engine_def PymunkPhysicsEngine_def setup_car_def Car_def Sprite_def TRACKS_def)

lemma heading_flags:
  "\<not> out_of_track (heading a v)" "\<not> accelerate (heading a v)" "\<not> slowdown (heading a v)"
  "\<not> turn_left (heading a v)" "\<not> turn_right (heading a v)"
  by (simp_all add: heading_def moving_def main_def)

lemma body_of_flags [simp]:
  "body_of (s\<lparr> accelerate := b \<rparr>) = body_of s"
  "body_of (s\<lparr> slowdown := b \<rparr>) = body_of s"
  "body_of (s\<lparr> turn_left := b \<rparr>) = body_of s"
  "body_of (s\<lparr> turn_right := b \<rparr>) = body_of s"
  by (simp_all add: body_of_def)

lemma drive_accelerate:
  "accelerate s \<Longrightarrow> applied (body_of (drive s)) = applied (body_of s) @ [(0, ACCELERATE_FORCE)] \<and>
     velocity (body_of (drive s)) = velocity (body_of s)"
  by (simp add: drive_def body_of_def apply_force_def)


lemma car_drive: "car (drive s) = car s"
  by (simp add: drive_def)

lemma car_turn: "car (turn s) = car s"
  by (simp add: turn_def Let_def)

lemma turn_cong:
  "physics_engine s = physics_engine s' \<Longrightarrow> turn_left s = turn_left s' \<Longrightarrow>
   (\<not> turn_left s \<Longrightarrow> turn_right s = turn_right s') \<Longrightarrow>
   physics_engine (turn s) = physics_engine (turn s')"
  by (simp add: turn_def Let_def)

lemma drive_cong:
  "physics_engine s = physics_engine s' \<Longrightarrow> accelerate s = accelerate s' \<Longrightarrow>
   (\<not> accelerate s \<Longrightarrow> slowdown s = slowdown s') \<Longrightarrow>
   physics_engine (drive s) = physics_engine (drive s')"
  by (simp add: drive_def body_of_def)

lemma drive_flags:
  "turn_left (drive s) = turn_left s" "turn_right (drive s) = turn_right s"
  by (simp_all add: drive_def)

lemma controls_cong:
  assumes "track s = track s'" "car s = car s'" "out_of_track s = out_of_track s'"
    and "physics_engine s = physics_engine s'"
    and "accelerate s = accelerate s'" "\<not> accelerate s \<Longrightarrow> slowdown s = slowdown s'"
    and "turn_left s = turn_left s'" "\<not> turn_left s \<Longrightarrow> turn_right s = turn_right s'"
  shows "physics_engine (controls pip s) = physics_engine (controls pip s') \<and>
         car (controls pip s) = car (controls pip s')"
proof (cases "\<not> is_ontrack pip (track s) (center_x (car s)) (center_y (car s)) \<or> out_of_track s")
  case True
  with assms show ?thesis by (simp add: controls_def)
next
  case False
  have "physics_engine (drive s) = physics_engine (drive s')"
    using assms by (intro drive_cong) simp_all
  then have "physics_engine (turn (drive s)) = physics_engine (turn (drive s'))"
    using assms by (intro turn_cong) (simp_all add: drive_flags)
  with False assms show ?thesis
    by (simp add: controls_def car_turn car_drive)
qed

lemma engine_step_parts:
  "car (engine_step step x) = fst (step (car x) (physics_engine x))"
  "physics_engine (engine_step step x) = snd (step (car x) (physics_engine x))"
  by (simp_all add: engine_step_def split: prod.split)

section \<open>The claims\<close>

text \<open>
  C7. The reset (\<^verbatim>\<open>Racer.setup\<close>, bound to the key R) puts the car at the track's start
  point, both the sprite and the new physics body, with velocity zero, no force applied,
  the default orientation (angle 0) and \<open>out_of_track\<close> false, from every state.
\<close>
theorem reset_restores:
  "on_key_press R s = Inr (setup_racer s) \<and>
   start (track (setup_racer s)) = cfg_start (TRACKS ! 0) \<and>
   center_x (car (setup_racer s)) = real_of_int (fst (start (track (setup_racer s)))) \<and>
   center_y (car (setup_racer s)) = real_of_int (snd (start (track (setup_racer s)))) \<and>
   position (body_of (setup_racer s)) =
     (real_of_int (fst (start (track (setup_racer s)))),
      real_of_int (snd (start (track (setup_racer s))))) \<and>
   velocity (body_of (setup_racer s)) = (0, 0) \<and>
   applied (body_of (setup_racer s)) = [] \<and>
   angle (body_of (setup_racer s)) = 0 \<and>
   sprite_angle (car (setup_racer s)) = 0 \<and>
   out_of_track (setup_racer s) = False"
  by (simp add: on_key_press_def setup_racer_def setup_track_def setup_car_def setup_engine_def
      PymunkPhysicsEngine_def Track_def Car_def Sprite_def body_of_def)

text \<open>
  C8. For every track of \<^verbatim>\<open>TRACKS\<close>, the containment test at the track's start point is
  true, with the ray-casting test as the point-in-polygon primitive.
\<close>
theorem start_is_on_track:
  "list_all
     (\<lambda>cfg. is_ontrack ray_casting (Track cfg)
        (real_of_int (fst (cfg_start cfg))) (real_of_int (snd (cfg_start cfg))))
     TRACKS"
  by (simp add: TRACKS_def is_ontrack_def Track_def ray_casting_def ray_meets_def edges_def)



text \<open>
  C6. Every point \<open>(x, y)\<close> of a polygon becomes \<open>(x, 720 - y)\<close> before it is handed to
  the rasteriser, for the outer and the inner polygon alike (720 is the canvas height),
  and the containment test works on the unflipped polygons.
\<close>
theorem flip_only_for_rendering:
  "flip_y ps = map (\<lambda>p. (fst p, 720 - snd p)) ps \<and>
   img_draws (alpha_track_mask (Track cfg)) =
     [Draw_polygon (map (\<lambda>p. (fst p, 720 - snd p)) (cfg_outer_bound cfg))
        (128, 128, 128, 255) (0, 0, 0, 255) 3,
      Draw_polygon (map (\<lambda>p. (fst p, 720 - snd p)) (cfg_inner_bound cfg))
        (0, 0, 0, 0) (0, 0, 0, 255) 3] \<and>
   is_ontrack pip (Track cfg) x y =
     (pip x y (cfg_outer_bound cfg) \<and> \<not> pip x y (cfg_inner_bound cfg))"
  by (simp add: flip_y_def SCREEN_HEIGHT_def Track_def is_ontrack_def case_prod_beta)

text \<open>
  C4. In a tick where the car's position fails the containment test or \<open>out_of_track\<close>
  is already set, the controls only set \<open>out_of_track\<close>: the engine reaches its step
  exactly as it was before the tick (no force, no velocity write, no angle change), and
  the step is taken.
\<close>
theorem off_track_tick:
  assumes "\<not> is_ontrack pip (track s) (center_x (car s)) (center_y (car s)) \<or> out_of_track s"
  shows "controls pip s = s\<lparr> out_of_track := True \<rparr> \<and>
         on_update pip step s dt =
           s\<lparr> out_of_track := True,
              car := fst (step (car s) (physics_engine s)),
              physics_engine := snd (step (car s) (physics_engine s)) \<rparr>"
  using assms by (simp add: on_update_def engine_step_def controls_def split: prod.split)

theorem off_track_tick_witness:
  "controls ray_casting (main\<lparr> car := Car \<rparr>) = main\<lparr> car := Car, out_of_track := True \<rparr> \<and>
   on_update ray_casting idle_step (main\<lparr> car := Car \<rparr>) (1 / 60) =
     main\<lparr> car := Car, out_of_track := True \<rparr> \<and>
   on_update ray_casting idle_step (main\<lparr> out_of_track := True \<rparr>) (1 / 60) =
     main\<lparr> out_of_track := True \<rparr>"
proof -
  have a: "\<not> is_ontrack ray_casting (track (main\<lparr> car := Car \<rparr>))
             (center_x (car (main\<lparr> car := Car \<rparr>))) (center_y (car (main\<lparr> car := Car \<rparr>)))
           \<or> out_of_track (main\<lparr> car := Car \<rparr>)"
    using origin_off_track by (simp add: Car_def Sprite_def)
  have b: "\<not> is_ontrack ray_casting (track (main\<lparr> out_of_track := True \<rparr>))
             (center_x (car (main\<lparr> out_of_track := True \<rparr>)))
             (center_y (car (main\<lparr> out_of_track := True \<rparr>)))
           \<or> out_of_track (main\<lparr> out_of_track := True \<rparr>)"
    by simp
  show ?thesis
    using off_track_tick [OF a, of idle_step "1 / 60"] off_track_tick [OF b, of idle_step "1 / 60"]
    by (simp add: idle_step_def)
qed




text \<open>
  C3. From a state with \<open>out_of_track\<close> set, the flag is still set after a tick, and
  after any sequence of ticks, key presses and key releases without the reset key R,
  whatever the controls are; the reset (\<^verbatim>\<open>Racer.setup\<close>, the key R) clears it.
\<close>
theorem out_of_track_sticky:
  assumes "out_of_track s"
  shows "out_of_track (on_update pip step s dt) \<and>
         (\<forall>evs s'. Key_press R \<notin> set evs \<and> run pip step evs s = Inr s' \<longrightarrow> out_of_track s') \<and>
         \<not> out_of_track (setup_racer s) \<and>
         on_key_press R s = Inr (setup_racer s)"
proof -
  have "out_of_track (on_update pip step s dt)"
    using assms by (rule on_update_flag)
  moreover have "\<forall>evs s'. Key_press R \<notin> set evs \<and> run pip step evs s = Inr s' \<longrightarrow> out_of_track s'"
    using assms by (blast intro: run_flag)
  moreover have "\<not> out_of_track (setup_racer s)"
    by (simp add: setup_racer_def)
  moreover have "on_key_press R s = Inr (setup_racer s)"
    by (simp add: on_key_press_def)
  ultimately show ?thesis by blast
qed

theorem out_of_track_sticky_witness:
  "out_of_track (on_update ray_casting idle_step (main\<lparr> out_of_track := True \<rparr>) (1 / 60)) \<and>
   (case run ray_casting idle_step
           [Key_press UP, Update (1 / 60), Key_release UP, Key_press LEFT, Key_press DOWN,
            Update (1 / 60), Key_release LEFT, Key_press D, Update (1 / 60)]
           (main\<lparr> out_of_track := True \<rparr>) of
      Inl e \<Rightarrow> False
    | Inr s' \<Rightarrow> out_of_track s') \<and>
   on_key_press R (main\<lparr> out_of_track := True \<rparr>) = Inr main"
proof -
  let ?s = "main\<lparr> out_of_track := True \<rparr>"
  let ?evs = "[Key_press UP, Update (1 / 60), Key_release UP, Key_press LEFT, Key_press DOWN,
            Update (1 / 60), Key_release LEFT, Key_press D, Update (1 / 60)]"
  have s: "out_of_track ?s" by simp
  have r: "Key_press R \<notin> set ?evs" by simp
  have m: "setup_racer ?s = main" by (simp add: setup_racer_def main_def)
  obtain s' where run: "run ray_casting idle_step ?evs ?s = Inr s'"
    by (simp add: on_key_press_def on_key_release_def Let_def)
  from out_of_track_sticky [OF s, of ray_casting idle_step "1 / 60"] r run
  have "out_of_track s'" by blast
  with run out_of_track_sticky [OF s, of ray_casting idle_step "1 / 60"] m
  show ?thesis by simp
qed

text \<open>
  C5. In a tick on track, turn-left adds \<open>CAR_TURN_SPEED\<close> to the body's angle and rotates
  the current velocity (the one accelerating or braking left) by
  \<open>CAR_TURN_SPEED * (1 - CAR_DRIFT)\<close>; turn-right without turn-left does the same with both
  angles negated; without either nothing turns. The force that accelerating or braking
  applied in the same tick stays applied.
\<close>
theorem turn_effect:
  assumes "is_ontrack pip (track s) (center_x (car s)) (center_y (car s))"
    and "\<not> out_of_track s"
  shows "on_update pip step s dt = engine_step step (controls pip s) \<and>
         applied (body_of (controls pip s)) = applied (body_of (drive s)) \<and>
         (if turn_left s then
            angle (body_of (controls pip s)) = angle (body_of s) + CAR_TURN_SPEED \<and>
            velocity (body_of (controls pip s)) =
              rotated (velocity (body_of (drive s))) (CAR_TURN_SPEED * (1 - CAR_DRIFT))
          else if turn_right s then
            angle (body_of (controls pip s)) = angle (body_of s) - CAR_TURN_SPEED \<and>
            velocity (body_of (controls pip s)) =
              rotated (velocity (body_of (drive s))) (- (CAR_TURN_SPEED * (1 - CAR_DRIFT)))
          else
            angle (body_of (controls pip s)) = angle (body_of s) \<and>
            velocity (body_of (controls pip s)) = velocity (body_of (drive s)))"
proof -
  have c: "controls pip s = turn (drive s)"
    using assms by (simp add: controls_def)
  have a: "CAR_TURN_SPEED - CAR_DRIFT * CAR_TURN_SPEED = CAR_TURN_SPEED * (1 - CAR_DRIFT)"
    by (simp add: algebra_simps)
  have l: "turn_left (drive s) = turn_left s" and r: "turn_right (drive s) = turn_right s"
    by (simp_all add: drive_def)
  have t: "angle (body_of (turn (drive s))) =
             (if turn_left s then angle (body_of s) + CAR_TURN_SPEED
              else if turn_right s then angle (body_of s) - CAR_TURN_SPEED
              else angle (body_of s))"
    using body_of_drive_angle [of s]
    by (simp add: turn_def l r Let_def) (simp add: body_of_def add_angle_def set_velocity_def)
  have v: "velocity (body_of (turn (drive s))) =
             (if turn_left s then
                rotated (velocity (body_of (drive s))) (CAR_TURN_SPEED * (1 - CAR_DRIFT))
              else if turn_right s then
                rotated (velocity (body_of (drive s))) (- (CAR_TURN_SPEED * (1 - CAR_DRIFT)))
              else velocity (body_of (drive s)))"
    by (simp add: turn_def l r Let_def a) (simp add: body_of_def add_angle_def set_velocity_def)
  show ?thesis
    by (simp add: c on_update_def turn_applied t v)
qed

text \<open>
  C9. With turn-left set, the tick's result for car and engine is the same whether
  turn-right is set or not, and with accelerate set it is the same whether brake is set or
  not; a tick applies at most one force and changes the angle by \<open>CAR_TURN_SPEED\<close> one way
  or the other, or not at all.
\<close>
theorem one_effect_per_pair:
  "car (on_update pip step (s\<lparr> turn_left := True, turn_right := True \<rparr>) dt) =
     car (on_update pip step (s\<lparr> turn_left := True, turn_right := False \<rparr>) dt) \<and>
   physics_engine (on_update pip step (s\<lparr> turn_left := True, turn_right := True \<rparr>) dt) =
     physics_engine (on_update pip step (s\<lparr> turn_left := True, turn_right := False \<rparr>) dt) \<and>
   car (on_update pip step (s\<lparr> accelerate := True, slowdown := True \<rparr>) dt) =
     car (on_update pip step (s\<lparr> accelerate := True, slowdown := False \<rparr>) dt) \<and>
   physics_engine (on_update pip step (s\<lparr> accelerate := True, slowdown := True \<rparr>) dt) =
     physics_engine (on_update pip step (s\<lparr> accelerate := True, slowdown := False \<rparr>) dt) \<and>
   length (applied (body_of (controls pip s))) \<le> length (applied (body_of s)) + 1 \<and>
   angle (body_of (controls pip s)) \<in>
     {angle (body_of s), angle (body_of s) + CAR_TURN_SPEED, angle (body_of s) - CAR_TURN_SPEED}"
proof -
  have t: "physics_engine (controls pip (s\<lparr> turn_left := True, turn_right := True \<rparr>)) =
           physics_engine (controls pip (s\<lparr> turn_left := True, turn_right := False \<rparr>)) \<and>
           car (controls pip (s\<lparr> turn_left := True, turn_right := True \<rparr>)) =
           car (controls pip (s\<lparr> turn_left := True, turn_right := False \<rparr>))"
    by (rule controls_cong) simp_all
  have d: "physics_engine (controls pip (s\<lparr> accelerate := True, slowdown := True \<rparr>)) =
           physics_engine (controls pip (s\<lparr> accelerate := True, slowdown := False \<rparr>)) \<and>
           car (controls pip (s\<lparr> accelerate := True, slowdown := True \<rparr>)) =
           car (controls pip (s\<lparr> accelerate := True, slowdown := False \<rparr>))"
    by (rule controls_cong) simp_all
  have "length (applied (body_of (drive s))) \<le> length (applied (body_of s)) + 1"
    by (simp add: drive_def) (simp add: body_of_def apply_force_def set_velocity_def)
  then have n: "length (applied (body_of (controls pip s))) \<le> length (applied (body_of s)) + 1"
    by (simp add: controls_def turn_applied) (simp add: body_of_def)
  have "angle (body_of (turn x)) \<in>
     {angle (body_of x), angle (body_of x) + CAR_TURN_SPEED, angle (body_of x) - CAR_TURN_SPEED}" for x
    by (simp add: turn_def Let_def) (simp add: body_of_def add_angle_def set_velocity_def)
  from this [of "drive s"]
  have a: "angle (body_of (controls pip s)) \<in>
     {angle (body_of s), angle (body_of s) + CAR_TURN_SPEED, angle (body_of s) - CAR_TURN_SPEED}"
    by (simp only: body_of_drive_angle controls_def split: if_split) (simp add: body_of_def)
  show ?thesis
    using n a t d by (simp only: on_update_def engine_step_parts)
qed

theorem one_effect_per_pair_witness:
  "applied (body_of (controls ray_casting
      ((heading 0 (0, 2000))\<lparr> accelerate := True, slowdown := True \<rparr>))) =
     [(0, ACCELERATE_FORCE)] \<and>
   angle (body_of (controls ray_casting
      ((heading 0 (0, 2000))\<lparr> turn_left := True, turn_right := True \<rparr>))) = CAR_TURN_SPEED"
proof -
  let ?h = "heading 0 (0, 2000)"
  have 1: "applied (body_of (controls ray_casting (?h\<lparr> accelerate := True, slowdown := False \<rparr>))) =
           [(0, ACCELERATE_FORCE)]"
    using heading_on_track [of 0 "(0, 2000)"] heading_body [of 0 "(0, 2000)"]
    by (simp add: controls_def heading_flags turn_applied drive_accelerate)
  have 2: "angle (body_of (controls ray_casting (?h\<lparr> turn_left := True, turn_right := False \<rparr>))) =
           CAR_TURN_SPEED"
    using heading_on_track [of 0 "(0, 2000)"] heading_body [of 0 "(0, 2000)"]
    by (simp add: controls_def heading_flags turn_def drive_def Let_def)
      (simp add: body_of_def add_angle_def set_velocity_def)
  from one_effect_per_pair [of ray_casting idle_step ?h "1 / 60"]
  have "physics_engine (controls ray_casting (?h\<lparr> accelerate := True, slowdown := True \<rparr>)) =
        physics_engine (controls ray_casting (?h\<lparr> accelerate := True, slowdown := False \<rparr>))"
   and "physics_engine (controls ray_casting (?h\<lparr> turn_left := True, turn_right := True \<rparr>)) =
        physics_engine (controls ray_casting (?h\<lparr> turn_left := True, turn_right := False \<rparr>))"
    by (simp_all add: on_update_def engine_step_def idle_step_def)
  with 1 2 show ?thesis
    by (simp add: body_of_def)
qed



theorem turn_effect_witness:
  "angle (body_of (controls ray_casting
      ((heading 0 (3, 4))\<lparr> accelerate := True, turn_left := True \<rparr>))) = CAR_TURN_SPEED \<and>
   velocity (body_of (controls ray_casting
      ((heading 0 (3, 4))\<lparr> accelerate := True, turn_left := True \<rparr>))) =
     rotated (3, 4) (CAR_TURN_SPEED * (1 - CAR_DRIFT)) \<and>
   applied (body_of (controls ray_casting
      ((heading 0 (3, 4))\<lparr> accelerate := True, turn_left := True \<rparr>))) =
     [(0, ACCELERATE_FORCE)] \<and>
   angle (body_of (controls ray_casting
      ((heading 0 (3, 4))\<lparr> turn_right := True \<rparr>))) = - CAR_TURN_SPEED \<and>
   velocity (body_of (controls ray_casting
      ((heading 0 (3, 4))\<lparr> turn_right := True \<rparr>))) =
     rotated (3, 4) (- (CAR_TURN_SPEED * (1 - CAR_DRIFT)))"
proof -
  let ?l = "(heading 0 (3, 4))\<lparr> accelerate := True, turn_left := True \<rparr>"
  let ?r = "(heading 0 (3, 4))\<lparr> turn_right := True \<rparr>"
  have onl: "is_ontrack ray_casting (track ?l) (center_x (car ?l)) (center_y (car ?l))"
    and onr: "is_ontrack ray_casting (track ?r) (center_x (car ?r)) (center_y (car ?r))"
    using heading_on_track [of 0 "(3, 4)"] by simp_all
  have fl: "\<not> out_of_track ?l" "turn_left ?l" "accelerate ?l"
    and fr: "\<not> out_of_track ?r" "\<not> turn_left ?r" "turn_right ?r" "\<not> accelerate ?r" "\<not> slowdown ?r"
    by (simp_all add: heading_flags)
  have dl: "applied (body_of (drive ?l)) = [(0, ACCELERATE_FORCE)]"
           "velocity (body_of (drive ?l)) = (3, 4)"
    using drive_accelerate [of ?l] by (simp_all add: heading_body)
  have dr: "drive ?r = ?r"
    using fr by (simp add: drive_def)
  show ?thesis
    using turn_effect [OF onl fl(1), of idle_step "1 / 60"]
          turn_effect [OF onr fr(1), of idle_step "1 / 60"]
    by (simp add: fl fr dl dr heading_body)
qed

end
